theory Spec2Isabelle
  imports Complex_Main "HOL-Library.Signed_Division"
begin

section \<open>The Gitlab provider of cyclone: version negotiation, credentials, helpers\<close>

text \<open>
  A shallow embedding of package \<^verbatim>\<open>gitlab\<close> (the second file of
  \<^verbatim>\<open>src/pkg/server/options.go\<close>). Go strings are byte sequences and become
  \<^typ>\<open>string\<close>; a Go \<^verbatim>\<open>(value, error)\<close> result becomes a sum with the error on
  the left; the configuration that the functions mutate through their pointer argument
  and the package-level state are passed in and returned.
\<close>

subsection \<open>Data\<close>

text \<open>
  A Go \<^verbatim>\<open>error\<close>. \<open>Errorf\<close> is an error made in this package by \<^verbatim>\<open>fmt.Errorf\<close>,
  with its formatted text; \<open>LibError\<close> is an error handed back by a library call
  (net/http, encoding/json, io/ioutil, go-gitlab), with its text.
\<close>

datatype error = Errorf string | LibError string

fun error_text :: "error \<Rightarrow> string" where
  "error_text (Errorf s) = s"
| "error_text (LibError s) = s"

text \<open>\<^verbatim>\<open>api.SCMConfig\<close>, the fields this package reads and writes.\<close>

record SCMConfig =
  Server :: string
  Username :: string
  Password :: string
  Token :: string

text \<open>\<^verbatim>\<open>versionResponse\<close> (lines 258-261) and the part of \<^verbatim>\<open>oauth2.Token\<close> that is read.\<close>

record versionResponse =
  Version :: string
  Reversion :: string

record oauth2_Token =
  AccessToken :: string
  TokenType :: string
  RefreshToken :: string

text \<open>
  An HTTP request as this package builds it, and a response as it reads it:
  \<open>Body\<close> is what \<^verbatim>\<open>ioutil.ReadAll(resp.Body)\<close> returns.
\<close>

record request =
  Method :: string
  URL :: string
  Header :: "(string \<times> string) list"
  ReqBody :: string

record response =
  StatusCode :: int
  Body :: "error + string"

text \<open>
  The two HTTP clients in use: \<^verbatim>\<open>http.DefaultClient\<close>, and the client of
  \<^verbatim>\<open>detectAPIVersion\<close> whose \<^verbatim>\<open>CheckRedirect\<close> returns \<^verbatim>\<open>http.ErrUseLastResponse\<close>.
\<close>

datatype http_client = DefaultClient | NoRedirectClient

text \<open>
  Everything outside this file that the code calls is a parameter: the URL normaliser
  \<^verbatim>\<open>provider.ParseServerURL\<close>, the JSON encoder and decoders, the URL check
  inside \<^verbatim>\<open>http.NewRequest\<close>, the network (the answer of \<^verbatim>\<open>client.Do\<close> to a
  request), and \<^verbatim>\<open>SetBaseURL\<close> of the two go-gitlab libraries.
\<close>

record env =
  ParseServerURL :: "string \<Rightarrow> string"
  json_Marshal :: "string \<times> string \<times> string \<Rightarrow> error + string"
  url_Parse :: "string \<Rightarrow> error option"
  client_Do :: "http_client \<Rightarrow> request \<Rightarrow> error + response"
  unmarshal_versionResponse :: "string \<Rightarrow> error + versionResponse"
  unmarshal_Token :: "string \<Rightarrow> error + oauth2_Token"
  SetBaseURL_v3 :: "string \<Rightarrow> error option"
  SetBaseURL_v4 :: "string \<Rightarrow> error option"

text \<open>
  The state of the process that the package touches: the package variable
  \<^verbatim>\<open>gitlabServerAPIVersions\<close> (line 163), the requests handed to \<^verbatim>\<open>client.Do\<close> so far,
  and the lines written with glog.
\<close>

datatype severity = INFO | WARNING | ERROR

record world =
  gitlabServerAPIVersions :: "string \<rightharpoonup> string"
  sent :: "(http_client \<times> request) list"
  logged :: "(severity \<times> string) list"

definition init_world :: world where
  "init_world = \<lparr>gitlabServerAPIVersions = Map.empty, sent = [], logged = []\<rparr>"

definition logf :: "severity \<Rightarrow> string \<Rightarrow> world \<Rightarrow> world" where
  "logf sev msg w = w\<lparr>logged := logged w @ [(sev, msg)]\<rparr>"

definition record_sent :: "http_client \<Rightarrow> request \<Rightarrow> world \<Rightarrow> world" where
  "record_sent c req w = w\<lparr>sent := sent w @ [(c, req)]\<rparr>"

subsection \<open>Constants (lines 152-161) and library functions on strings\<close>

definition gitLabServer :: string where
  "gitLabServer = ''https://gitlab.com''"

definition v3APIVersion :: string where
  "v3APIVersion = ''v3''"

definition v4APIVersion :: string where
  "v4APIVersion = ''v4''"

text \<open>\<^verbatim>\<open>http.StatusOK\<close>, \<^verbatim>\<open>http.StatusFound\<close>, \<^verbatim>\<open>http.StatusNotFound\<close>.\<close>

definition StatusOK :: int where
  "StatusOK = 200"

definition StatusFound :: int where
  "StatusFound = 302"

definition StatusNotFound :: int where
  "StatusNotFound = 404"

text \<open>\<^verbatim>\<open>strings.HasPrefix(s, prefix)\<close> and \<^verbatim>\<open>strings.Contains(s, substr)\<close>.\<close>

fun strings_HasPrefix :: "string \<Rightarrow> string \<Rightarrow> bool" where
  "strings_HasPrefix s [] = True"
| "strings_HasPrefix [] (p # ps) = False"
| "strings_HasPrefix (c # cs) (p # ps) = (c = p \<and> strings_HasPrefix cs ps)"

fun strings_Contains :: "string \<Rightarrow> string \<Rightarrow> bool" where
  "strings_Contains [] substr = (substr = [])"
| "strings_Contains (c # cs) substr =
     (strings_HasPrefix (c # cs) substr \<or> strings_Contains cs substr)"

text \<open>The verb \<^verbatim>\<open>%d\<close> of the fmt package on an \<^verbatim>\<open>int\<close>.\<close>

fun show_nat :: "nat \<Rightarrow> string" where
  "show_nat n =
     (if n < 10 then [char_of (48 + n)]
      else show_nat (n div 10) @ [char_of (48 + n mod 10)])"

declare show_nat.simps [simp del]

definition show_int :: "int \<Rightarrow> string" where
  "show_int i = (if i < 0 then CHR ''-'' # show_nat (nat (- i)) else show_nat (nat i))"

text \<open>
  \<^verbatim>\<open>http.NewRequest(method, url, body)\<close> with one of the two methods used here: it fails
  when the URL does not parse, and otherwise gives a request with no header yet.
\<close>

definition http_NewRequest :: "env \<Rightarrow> string \<Rightarrow> string \<Rightarrow> string \<Rightarrow> error + request" where
  "http_NewRequest env method url body =
     (case url_Parse env url of
        Some err \<Rightarrow> Inl err
      | None \<Rightarrow> Inr \<lparr>Method = method, URL = url, Header = [], ReqBody = body\<rparr>)"

text \<open>
  \<^verbatim>\<open>req.Header.Set(key, value)\<close> stores the value under
  \<^verbatim>\<open>textproto.CanonicalMIMEHeaderKey(key)\<close> and replaces what was there: a key made of
  header field bytes gets an upper case letter at its start and after every hyphen and
  lower case letters elsewhere; any other key is kept as it is.
\<close>

definition toLowerASCII :: "char \<Rightarrow> char" where
  "toLowerASCII c =
     (case map_of (zip ''ABCDEFGHIJKLMNOPQRSTUVWXYZ'' ''abcdefghijklmnopqrstuvwxyz'') c of
        Some l \<Rightarrow> l
      | None \<Rightarrow> c)"

definition toUpperASCII :: "char \<Rightarrow> char" where
  "toUpperASCII c =
     (case map_of (zip ''abcdefghijklmnopqrstuvwxyz'' ''ABCDEFGHIJKLMNOPQRSTUVWXYZ'') c of
        Some u \<Rightarrow> u
      | None \<Rightarrow> c)"

definition validHeaderFieldByte :: "char \<Rightarrow> bool" where
  "validHeaderFieldByte c =
     (c \<in> set (''abcdefghijklmnopqrstuvwxyzABCDEFGHIJKLMNOPQRSTUVWXYZ0123456789''
                @ ''!#$%&*+-.^_`|~'' @ [CHR 0x27]))"

fun canonicalMIMEHeaderKey :: "bool \<Rightarrow> string \<Rightarrow> string" where
  "canonicalMIMEHeaderKey upper [] = []"
| "canonicalMIMEHeaderKey upper (c # cs) =
     (let c' = (if upper then toUpperASCII c else toLowerASCII c)
      in c' # canonicalMIMEHeaderKey (c' = CHR ''-'') cs)"

definition CanonicalMIMEHeaderKey :: "string \<Rightarrow> string" where
  "CanonicalMIMEHeaderKey s =
     (if list_all validHeaderFieldByte s then canonicalMIMEHeaderKey True s else s)"

definition Header_Set :: "string \<Rightarrow> string \<Rightarrow> request \<Rightarrow> request" where
  "Header_Set k v req =
     req\<lparr>Header := filter (\<lambda>kv. fst kv \<noteq> CanonicalMIMEHeaderKey k) (Header req)
                     @ [(CanonicalMIMEHeaderKey k, v)]\<rparr>"

subsection \<open>getOauthToken (lines 328-386)\<close>

text \<open>
  Lines 333-361: the body of the password grant, the rewrite of the server of the public
  Gitlab, and the POST request to \<^verbatim>\<open><server>/oauth/token\<close>.
\<close>

definition tokenRequest ::
  "env \<Rightarrow> SCMConfig \<Rightarrow> world \<Rightarrow> (error + request) \<times> SCMConfig \<times> world" where
  "tokenRequest env scm w =
     (case json_Marshal env (''password'', Username scm, Password scm) of
        Inl err \<Rightarrow>
          (Inl (Errorf (''fail to new request body for token as '' @ error_text err)), scm, w)
      | Inr bodyBytes \<Rightarrow>
          let (scm1, w1) =
                (if strings_Contains (Server scm) ''gitlab.com''
                    \<and> strings_HasPrefix (Server scm) ''http://''
                 then (scm\<lparr>Server := gitLabServer\<rparr>,
                       logf INFO (''Convert SCM server from '' @ Server scm @ '' to ''
                                  @ gitLabServer @ '' to use HTTPS protocol for public Gitlab'') w)
                 else (scm, w));
              tokenURL = Server scm1 @ ''/oauth/token''
          in (case http_NewRequest env ''POST'' tokenURL bodyBytes of
                Inl err \<Rightarrow>
                  (Inl err, scm1,
                   logf ERROR (''Fail to new the request for token as '' @ error_text err) w1)
              | Inr req \<Rightarrow>
                  (Inr (Header_Set ''Content-Type'' ''application/json'' req), scm1, w1)))"

text \<open>Lines 369-385: from the response of the token endpoint to the access token.\<close>

definition tokenOfResponse :: "env \<Rightarrow> response \<Rightarrow> world \<Rightarrow> (error + string) \<times> world" where
  "tokenOfResponse env resp w =
     (case Body resp of
        Inl err \<Rightarrow> (Inl err, logf ERROR (''Fail to request for token as '' @ error_text err) w)
      | Inr body \<Rightarrow>
          if StatusCode resp sdiv 100 = 2 then
            (case unmarshal_Token env body of
               Inl err \<Rightarrow> (Inl err, w)
             | Inr token \<Rightarrow> (Inr (AccessToken token), w))
          else (Inl (Errorf (''Fail to request for token as '' @ body)), w))"

definition getOauthToken ::
  "env \<Rightarrow> SCMConfig \<Rightarrow> world \<Rightarrow> (error + string) \<times> SCMConfig \<times> world" where
  "getOauthToken env scm w =
     (if length (Username scm) = 0 \<or> length (Password scm) = 0 then
        (Inl (Errorf ''GitHub username or password is missing''), scm, w)
      else
        case tokenRequest env scm w of
          (Inl err, scm1, w1) \<Rightarrow> (Inl err, scm1, w1)
        | (Inr req, scm1, w1) \<Rightarrow>
            let w2 = record_sent DefaultClient req w1
            in (case client_Do env DefaultClient req of
                  Inl err \<Rightarrow>
                    (Inl err, scm1,
                     logf ERROR (''Fail to request for token as '' @ error_text err) w2)
                | Inr resp \<Rightarrow>
                    (case tokenOfResponse env resp w2 of (r, w3) \<Rightarrow> (r, scm1, w3))))"

subsection \<open>detectAPIVersion (lines 263-326)\<close>

text \<open>Lines 264-271: a configuration without a token gets one from \<open>getOauthToken\<close>.\<close>

definition ensureToken ::
  "env \<Rightarrow> SCMConfig \<Rightarrow> world \<Rightarrow> (error + unit) \<times> SCMConfig \<times> world" where
  "ensureToken env scmCfg w =
     (if Token scmCfg = '''' then
        (case getOauthToken env scmCfg w of
           (Inl err, scm1, w1) \<Rightarrow> (Inl err, scm1, logf ERROR (error_text err) w1)
         | (Inr token, scm1, w1) \<Rightarrow> (Inr (), scm1\<lparr>Token := token\<rparr>, w1))
      else (Inr (), scmCfg, w))"

text \<open>Lines 273-288: the GET request to \<^verbatim>\<open><server>/api/v4/version\<close> and its headers.\<close>

definition versionRequest :: "env \<Rightarrow> SCMConfig \<Rightarrow> error + request" where
  "versionRequest env scmCfg =
     (case http_NewRequest env ''GET'' (Server scmCfg @ ''/api/v4/version'') '''' of
        Inl err \<Rightarrow> Inl err
      | Inr req \<Rightarrow>
          Inr ((if Username scmCfg = ''''
                then Header_Set ''PRIVATE-TOKEN'' (Token scmCfg)
                else Header_Set ''Authorization'' (''Bearer '' @ Token scmCfg))
               (Header_Set ''Content-Type'' ''application/json'' req)))"

text \<open>Lines 304-325: the switch on the status code of the probe's response.\<close>

definition versionOfResponse :: "env \<Rightarrow> response \<Rightarrow> world \<Rightarrow> (error + string) \<times> world" where
  "versionOfResponse env resp w =
     (if StatusCode resp = StatusOK then
        (case Body resp of
           Inl err \<Rightarrow> (Inl err, w)
         | Inr body \<Rightarrow>
             (case unmarshal_versionResponse env body of
                Inl err \<Rightarrow> (Inl err, logf ERROR (error_text err) w)
              | Inr gv \<Rightarrow>
                  (Inr v4APIVersion,
                   logf INFO (''Gitlab version is '' @ Version gv @ '', will use ''
                              @ v4APIVersion @ '' API'') w)))
      else if StatusCode resp = StatusNotFound \<or> StatusCode resp = StatusFound then
        (Inr v3APIVersion, w)
      else
        (Inr v3APIVersion,
         logf WARNING (''Status code of Gitlab API version request is ''
                       @ show_int (StatusCode resp) @ '', use v3 in default'') w))"

definition detectAPIVersion ::
  "env \<Rightarrow> SCMConfig \<Rightarrow> world \<Rightarrow> (error + string) \<times> SCMConfig \<times> world" where
  "detectAPIVersion env scmCfg w =
     (case ensureToken env scmCfg w of
        (Inl err, scm1, w1) \<Rightarrow> (Inl err, scm1, w1)
      | (Inr u, scm1, w1) \<Rightarrow>
          (case versionRequest env scm1 of
             Inl err \<Rightarrow> (Inl err, scm1, logf ERROR (error_text err) w1)
           | Inr req \<Rightarrow>
               let w2 = record_sent NoRedirectClient req w1
               in (case client_Do env NoRedirectClient req of
                     Inl err \<Rightarrow> (Inl err, scm1, logf ERROR (error_text err) w2)
                   | Inr resp \<Rightarrow>
                       (case versionOfResponse env resp w2 of (r, w3) \<Rightarrow> (r, scm1, w3)))))"

subsection \<open>getAPIVersion (lines 239-255)\<close>

definition getAPIVersion ::
  "env \<Rightarrow> SCMConfig \<Rightarrow> world \<Rightarrow> (error + string) \<times> SCMConfig \<times> world" where
  "getAPIVersion env scmCfg w =
     (let server = ParseServerURL env (Server scmCfg)
      in case gitlabServerAPIVersions w server of
           Some v \<Rightarrow> (Inr v, scmCfg, w)
         | None \<Rightarrow>
             (case detectAPIVersion env scmCfg w of
                (Inl err, scm1, w1) \<Rightarrow> (Inl err, scm1, w1)
              | (Inr version, scm1, w1) \<Rightarrow>
                  (Inr version, scm1,
                   w1\<lparr>gitlabServerAPIVersions :=
                        (gitlabServerAPIVersions w1)(server \<mapsto> version)\<rparr>)))"

subsection \<open>NewGitlab and the two client constructors (lines 172-237)\<close>

text \<open>
  A go-gitlab client, as far as this file configures it: with a private token
  (\<^verbatim>\<open>NewClient\<close>) or an OAuth token (\<^verbatim>\<open>NewOAuthClient\<close>), and its base URL.
\<close>

datatype client_kind = PrivateTokenClient | OAuthClient

record api_client =
  clientKind :: client_kind
  clientToken :: string
  baseURL :: string

datatype provider = GitlabV3 SCMConfig api_client | GitlabV4 SCMConfig api_client

definition newGitlabV4Client ::
  "env \<Rightarrow> string \<Rightarrow> string \<Rightarrow> string \<Rightarrow> world \<Rightarrow> (error + api_client) \<times> world" where
  "newGitlabV4Client env server username token w =
     (let kind = (if length username = 0 then PrivateTokenClient else OAuthClient);
          url = server @ ''/api/'' @ v4APIVersion
      in case SetBaseURL_v4 env url of
           Some err \<Rightarrow> (Inl err, logf ERROR (error_text err) w)
         | None \<Rightarrow> (Inr \<lparr>clientKind = kind, clientToken = token, baseURL = url\<rparr>, w))"

definition newGitlabV3Client ::
  "env \<Rightarrow> string \<Rightarrow> string \<Rightarrow> string \<Rightarrow> world \<Rightarrow> (error + api_client) \<times> world" where
  "newGitlabV3Client env server username token w =
     (let kind = (if length username = 0 then PrivateTokenClient else OAuthClient);
          url = server @ ''/api/'' @ v3APIVersion
      in case SetBaseURL_v3 env url of
           Some err \<Rightarrow> (Inl err, logf ERROR (error_text err) w)
         | None \<Rightarrow> (Inr \<lparr>clientKind = kind, clientToken = token, baseURL = url\<rparr>, w))"

text \<open>The error of the default branch of the switch in \<open>NewGitlab\<close> (line 198).\<close>

definition unsupportedVersion :: "string \<Rightarrow> error" where
  "unsupportedVersion version =
     Errorf (''Gitlab API version '' @ version @ '' is not supported, only support ''
             @ v3APIVersion @ '' and '' @ v4APIVersion)"

definition NewGitlab ::
  "env \<Rightarrow> SCMConfig \<Rightarrow> world \<Rightarrow> (error + provider) \<times> SCMConfig \<times> world" where
  "NewGitlab env scmCfg w =
     (case getAPIVersion env scmCfg w of
        (Inl err, scm1, w1) \<Rightarrow>
          (Inl err, scm1,
           logf ERROR (''Fail to get API version for server '' @ Server scm1 @ '' as ''
                       @ error_text err) w1)
      | (Inr version, scm1, w1) \<Rightarrow>
          let w2 = logf INFO (''New Gitlab '' @ version @ '' client'') w1
          in if version = v3APIVersion then
               (case newGitlabV3Client env (Server scm1) (Username scm1) (Token scm1) w2 of
                  (Inl err, w3) \<Rightarrow>
                    (Inl err, scm1,
                     logf ERROR (''fail to new Gitlab v3 client as %v'' @ error_text err) w3)
                | (Inr client, w3) \<Rightarrow> (Inr (GitlabV3 scm1 client), scm1, w3))
             else if version = v4APIVersion then
               (case newGitlabV4Client env (Server scm1) (Username scm1) (Token scm1) w2 of
                  (Inl err, w3) \<Rightarrow>
                    (Inl err, scm1,
                     logf ERROR (''fail to new Gitlab v4 client as %v'' @ error_text err) w3)
                | (Inr v4Client, w3) \<Rightarrow> (Inr (GitlabV4 scm1 v4Client), scm1, w3))
             else
               (Inl (unsupportedVersion version), scm1,
                logf ERROR (error_text (unsupportedVersion version)) w2))"

subsection \<open>getTopLanguage (lines 429-439)\<close>

text \<open>
  A \<^verbatim>\<open>float32\<close> as far as \<^verbatim>\<open>>\<close> sees it: not a number, an infinity, or a finite
  value (both zeros are \<open>Fin 0\<close>). A comparison with a NaN is false.
\<close>

datatype float32 = NaN | NegInf | Fin real | PosInf

fun f32_gt :: "float32 \<Rightarrow> float32 \<Rightarrow> bool" where
  "f32_gt NaN y = False"
| "f32_gt x NaN = False"
| "f32_gt NegInf y = False"
| "f32_gt PosInf PosInf = False"
| "f32_gt PosInf y = True"
| "f32_gt (Fin a) NegInf = True"
| "f32_gt (Fin a) (Fin b) = (b < a)"
| "f32_gt (Fin a) PosInf = False"

fun f32_le :: "float32 \<Rightarrow> float32 \<Rightarrow> bool" where
  "f32_le NaN y = False"
| "f32_le x NaN = False"
| "f32_le NegInf y = True"
| "f32_le PosInf PosInf = True"
| "f32_le PosInf y = False"
| "f32_le (Fin a) NegInf = False"
| "f32_le (Fin a) (Fin b) = (a \<le> b)"
| "f32_le (Fin a) PosInf = True"

text \<open>
  The loop \<^verbatim>\<open>for l, value := range languages\<close>. Go visits the entries of a map in an
  order it does not specify, so the loop runs over the entries in the order of the visit:
  a list of pairs whose keys are distinct. The state of the loop is \<open>(language, maxv)\<close>
  (the variables \<^verbatim>\<open>language\<close> and \<^verbatim>\<open>max\<close>), which starts at the zero values \<^verbatim>\<open>""\<close> and \<^verbatim>\<open>0\<close>.
\<close>

fun getTopLanguage_loop ::
  "(string \<times> float32) list \<Rightarrow> string \<times> float32 \<Rightarrow> string \<times> float32" where
  "getTopLanguage_loop [] (language, maxv) = (language, maxv)"
| "getTopLanguage_loop ((l, value) # rest) (language, maxv) =
     (if f32_gt value maxv then getTopLanguage_loop rest (l, value)
      else getTopLanguage_loop rest (language, maxv))"

definition getTopLanguage :: "(string \<times> float32) list \<Rightarrow> string" where
  "getTopLanguage languages = fst (getTopLanguage_loop languages ('''', Fin 0))"

subsection \<open>transStatus (lines 488-512)\<close>

text \<open>
  Modelled from the spec: \<^verbatim>\<open>api.Status\<close> and its constants are declared in package
  api, outside the given source. The spec gives the build status as the enumeration
  \<^verbatim>\<open>{Running, Success, Failed, Aborted, <other>}\<close>; \<open>OtherStatus\<close> is any other
  value, with the text that \<^verbatim>\<open>%s\<close> prints for it.
\<close>

datatype Status = Running | Success | Failed | Aborted | OtherStatus string

definition transStatus :: "Status \<Rightarrow> world \<Rightarrow> (string \<times> string) \<times> world" where
  "transStatus recordStatus w =
     (case recordStatus of
        Running \<Rightarrow> ((''running'', ''The Cyclone CI build is in progress.''), w)
      | Success \<Rightarrow> ((''success'', ''The Cyclone CI build passed.''), w)
      | Failed \<Rightarrow> ((''failed'', ''The Cyclone CI build failed.''), w)
      | Aborted \<Rightarrow> ((''canceled'', ''The Cyclone CI build failed.''), w)
      | OtherStatus s \<Rightarrow> ((''pending'', ''''), logf ERROR (''not supported state:'' @ s) w))"

subsection \<open>The words of the specification\<close>

text \<open>
  The specification's condition on \<open>getTopLanguage\<close>, in its words: the mapping has the
  key \<open>k\<close>, with value \<open>v\<close>, and \<open>v\<close> is strictly greater than every other value.
\<close>

definition spec_strictly_greatest ::
  "(string \<times> float32) list \<Rightarrow> string \<Rightarrow> float32 \<Rightarrow> bool" where
  "spec_strictly_greatest languages k v =
     ((k, v) \<in> set languages \<and> (\<forall>(k', v') \<in> set languages. k' \<noteq> k \<longrightarrow> f32_gt v v'))"

text \<open>
  The specification's condition of the rewrite of the server, in its words: the scheme is the
  insecure one and the host is the public host. Scheme and host are read as a URL gives
  them: the scheme stands before \<^verbatim>\<open>://\<close>, the authority runs from there to the next
  \<^verbatim>\<open>/\<close>, \<^verbatim>\<open>?\<close> or \<^verbatim>\<open>#\<close>, the host is what the authority has after its last \<^verbatim>\<open>@\<close> and
  before the \<^verbatim>\<open>:\<close> of a port, and neither scheme nor host minds the case of its letters.
\<close>

fun spec_split_scheme :: "string \<Rightarrow> string \<Rightarrow> (string \<times> string) option" where
  "spec_split_scheme scheme [] = None"
| "spec_split_scheme scheme (c # cs) =
     (if strings_HasPrefix (c # cs) ''://'' then Some (scheme, drop 3 (c # cs))
      else spec_split_scheme (scheme @ [c]) cs)"

definition spec_host :: "string \<Rightarrow> string" where
  "spec_host rest =
     (let authority = takeWhile (\<lambda>c. c \<notin> set ''/?#'') rest;
          hostport = rev (takeWhile (\<lambda>c. c \<noteq> CHR ''@'') (rev authority))
      in takeWhile (\<lambda>c. c \<noteq> CHR '':'') hostport)"

definition spec_insecure_public_host :: "string \<Rightarrow> bool" where
  "spec_insecure_public_host server =
     (case spec_split_scheme [] server of
        None \<Rightarrow> False
      | Some (scheme, rest) \<Rightarrow>
          map toLowerASCII scheme = ''http''
          \<and> map toLowerASCII (spec_host rest) = ''gitlab.com'')"

text \<open>The versions that \<open>NewGitlab\<close> has a client for are the only ones in the map.\<close>

definition versions_known :: "world \<Rightarrow> bool" where
  "versions_known w =
     (\<forall>server v. gitlabServerAPIVersions w server = Some v
        \<longrightarrow> v = v3APIVersion \<or> v = v4APIVersion)"

text \<open>
  A process is a sequence of calls of \<open>NewGitlab\<close>, each with its own configuration and
  its own answers of the outside, starting with the empty map of line 163.
\<close>

fun after_calls :: "(env \<times> SCMConfig) list \<Rightarrow> world \<Rightarrow> world" where
  "after_calls [] w = w"
| "after_calls ((env, scmCfg) # calls) w =
     after_calls calls (snd (snd (NewGitlab env scmCfg w)))"

subsection \<open>Stubs for concrete runs\<close>

text \<open>
  A stubbed outside: the JSON encoder writes the three fields, the decoders know one
  body each, every URL parses, and the network answers the POST of the token exchange
  with one result and the GET of the probe with another.
\<close>

definition stub_Marshal :: "string \<times> string \<times> string \<Rightarrow> error + string" where
  \<open>stub_Marshal = (\<lambda>(g, u, p).
     Inr (''{"grant_type":"'' @ g @ ''","username":"'' @ u @ ''","password":"'' @ p @ ''"}''))\<close>

definition stub_unmarshal_Token :: "string \<Rightarrow> error + oauth2_Token" where
  \<open>stub_unmarshal_Token body =
     (if body = ''{"access_token":"T"}''
      then Inr \<lparr>AccessToken = ''T'', TokenType = '''', RefreshToken = ''''\<rparr>
      else Inl (LibError ''invalid character''))\<close>

definition stub_unmarshal_versionResponse :: "string \<Rightarrow> error + versionResponse" where
  \<open>stub_unmarshal_versionResponse body =
     (if body = ''{"version":"11.0.1"}''
      then Inr \<lparr>Version = ''11.0.1'', Reversion = ''''\<rparr>
      else Inl (LibError ''invalid character''))\<close>

definition stub_net ::
  "(error + response) \<Rightarrow> (error + response) \<Rightarrow> http_client \<Rightarrow> request \<Rightarrow> error + response" where
  "stub_net token_answer version_answer c req =
     (if Method req = ''POST'' then token_answer else version_answer)"

definition stub_env :: "(http_client \<Rightarrow> request \<Rightarrow> error + response) \<Rightarrow> env" where
  "stub_env net =
     \<lparr>ParseServerURL = (\<lambda>s. s),
      json_Marshal = stub_Marshal,
      url_Parse = (\<lambda>u. None),
      client_Do = net,
      unmarshal_versionResponse = stub_unmarshal_versionResponse,
      unmarshal_Token = stub_unmarshal_Token,
      SetBaseURL_v3 = (\<lambda>u. None),
      SetBaseURL_v4 = (\<lambda>u. None)\<rparr>"

text \<open>The stubbed outside in which the probe gets the given answer.\<close>

definition probe_env :: "(error + response) \<Rightarrow> env" where
  "probe_env answer = stub_env (stub_net (Inl (LibError ''unused'')) answer)"

definition cfg_private_token :: SCMConfig where
  "cfg_private_token =
     \<lparr>Server = ''https://gitlab.example.com'', Username = '''', Password = '''',
      Token = ''glpat-1''\<rparr>"

definition cfg_password :: SCMConfig where
  "cfg_password =
     \<lparr>Server = ''http://gitlab.com'', Username = ''alice'', Password = ''secret'',
      Token = ''''\<rparr>"

definition cfg_empty :: SCMConfig where
  "cfg_empty = \<lparr>Server = ''http://gitlab.com'', Username = '''', Password = '''', Token = ''''\<rparr>"

text \<open>A configuration for a Gitlab of one's own, with username and password.\<close>

definition cfg_other_host :: SCMConfig where
  "cfg_other_host =
     \<lparr>Server = ''http://gitlab.company.com'', Username = ''alice'', Password = ''secret'',
      Token = ''''\<rparr>"

section \<open>Properties\<close>

subsection \<open>The status table\<close>

text \<open>
  C7. \<open>transStatus\<close> returns a pair for every status: the pair of \<open>Running\<close> is
  (running, The Cyclone CI build is in progress.), the pair of \<open>Success\<close> is
  (success, The Cyclone CI build passed.), and every value that is none of the four
  named ones gets the default pair (pending, empty description) and one line in the
  log. The pair does not depend on the state of the process, and the call leaves the
  version map and the requests as they were.
\<close>

theorem transStatus_table:
  "fst (transStatus Running w) = (''running'', ''The Cyclone CI build is in progress.'')
   \<and> fst (transStatus Success w) = (''success'', ''The Cyclone CI build passed.'')
   \<and> transStatus (OtherStatus s) w
       = ((''pending'', ''''), logf ERROR (''not supported state:'' @ s) w)
   \<and> fst (transStatus st w) = fst (transStatus st w')
   \<and> gitlabServerAPIVersions (snd (transStatus st w)) = gitlabServerAPIVersions w
   \<and> sent (snd (transStatus st w)) = sent w"
  by (simp add: transStatus_def logf_def split: Status.split)

subsection \<open>The top language\<close>

lemma getTopLanguage_loop_keeps:
  "\<forall>(l, v) \<in> set kvs. \<not> f32_gt v m \<Longrightarrow> getTopLanguage_loop kvs (lang, m) = (lang, m)"
  by (induction kvs) auto

lemma f32_le_not_gt: "f32_le v (Fin 0) \<Longrightarrow> \<not> f32_gt v (Fin 0)"
  by (cases v) auto

lemma f32_gt_asym: "f32_gt a b \<Longrightarrow> \<not> f32_gt b a"
  by (cases a; cases b) auto

lemma getTopLanguage_loop_finds:
  "distinct (map fst kvs) \<Longrightarrow> (k, v) \<in> set kvs \<Longrightarrow> f32_gt v m \<Longrightarrow>
   \<forall>(k', v') \<in> set kvs. k' \<noteq> k \<longrightarrow> f32_gt v v' \<Longrightarrow>
   getTopLanguage_loop kvs (lang, m) = (k, v)"
proof (induction kvs arbitrary: lang m)
  case Nil
  then show ?case by simp
next
  case (Cons e rest)
  obtain l x where e: "e = (l, x)" by (cases e)
  show ?case
  proof (cases "l = k")
    case True
    with Cons.prems e have xv: "x = v"
      by (auto simp: image_iff)
    have "\<forall>(k', v') \<in> set rest. \<not> f32_gt v' v"
    proof (clarify)
      fix a b
      assume ab: "(a, b) \<in> set rest" and gt: "f32_gt b v"
      from Cons.prems(1) e True ab have "a \<noteq> k"
        by (auto simp: image_iff)
      with Cons.prems(4) ab have "f32_gt v b" by auto
      with gt show False by (auto dest: f32_gt_asym)
    qed
    then have "getTopLanguage_loop rest (k, v) = (k, v)"
      by (rule getTopLanguage_loop_keeps)
    with Cons.prems e True xv show ?thesis by simp
  next
    case False
    with Cons.prems e have inrest: "(k, v) \<in> set rest" by auto
    from Cons.prems e have d: "distinct (map fst rest)" by simp
    from Cons.prems have others: "\<forall>(k', v') \<in> set rest. k' \<noteq> k \<longrightarrow> f32_gt v v'" by auto
    from Cons.prems e False have vx: "f32_gt v x" by auto
    show ?thesis
    proof (cases "f32_gt x m")
      case True
      then show ?thesis using e Cons.IH [OF d inrest vx others] by simp
    next
      case False
      then show ?thesis using e Cons.IH [OF d inrest Cons.prems(3) others] by simp
    qed
  qed
qed

text \<open>
  C8, as the claim states it, fails: in the mapping Go: -1, Python: -2 the value of Go is
  strictly greater than every other value, and the result is the empty string, not Go.
\<close>

theorem getTopLanguage_strictly_greatest_counterexample:
  "distinct (map fst [(''Go'', Fin (- 1)), (''Python'', Fin (- 2))])
   \<and> spec_strictly_greatest [(''Go'', Fin (- 1)), (''Python'', Fin (- 2))] ''Go'' (Fin (- 1))
   \<and> getTopLanguage [(''Go'', Fin (- 1)), (''Python'', Fin (- 2))] = ''''
   \<and> '''' \<noteq> ''Go''"
  by (simp add: spec_strictly_greatest_def getTopLanguage_def)

text \<open>
  C8, amended. For every language mapping, in whatever order its entries are visited, that
  has a key whose value is strictly greater than every other value and strictly greater
  than zero, \<open>getTopLanguage\<close> returns that key; for the empty mapping it returns the
  empty string.
\<close>

theorem getTopLanguage_strictly_greatest:
  "(distinct (map fst languages) \<and> spec_strictly_greatest languages k v \<and> f32_gt v (Fin 0)
      \<longrightarrow> getTopLanguage languages = k)
   \<and> getTopLanguage [] = ''''"
  using getTopLanguage_loop_finds [of languages k v "Fin 0" "''''"]
  by (simp add: getTopLanguage_def spec_strictly_greatest_def)

theorem getTopLanguage_strictly_greatest_witness:
  "getTopLanguage [(''Go'', Fin 80), (''Python'', Fin 20)] = ''Go''
   \<and> getTopLanguage [(''Python'', Fin 20), (''Go'', Fin 80)] = ''Go''
   \<and> getTopLanguage [] = ''''"
  using getTopLanguage_strictly_greatest
          [of "[(''Go'', Fin 80), (''Python'', Fin 20)]" "''Go''" "Fin 80"]
        getTopLanguage_strictly_greatest
          [of "[(''Python'', Fin 20), (''Go'', Fin 80)]" "''Go''" "Fin 80"]
  by (simp add: spec_strictly_greatest_def)

text \<open>
  C10. For every language mapping in which every value is less than or equal to zero,
  the non-empty ones among them, \<open>getTopLanguage\<close> returns the empty string: the running
  maximum starts at zero and is replaced only by a strictly greater value.
\<close>

theorem getTopLanguage_nonpositive:
  assumes "\<forall>(l, v) \<in> set languages. f32_le v (Fin 0)"
  shows "getTopLanguage languages = ''''"
proof -
  from assms have "\<forall>(l, v) \<in> set languages. \<not> f32_gt v (Fin 0)"
    by (auto dest: f32_le_not_gt)
  then show ?thesis
    by (simp add: getTopLanguage_def getTopLanguage_loop_keeps)
qed

theorem getTopLanguage_nonpositive_witness:
  "getTopLanguage [(''Go'', Fin 0), (''Python'', Fin (- 2)), (''C'', NegInf)] = ''''"
  using getTopLanguage_nonpositive [of "[(''Go'', Fin 0), (''Python'', Fin (- 2)), (''C'', NegInf)]"]
  by simp

subsection \<open>What the log and the request trace leave alone\<close>

lemma cache_logf [simp]:
  "gitlabServerAPIVersions (logf sev msg w) = gitlabServerAPIVersions w"
  by (simp add: logf_def)

lemma cache_record_sent [simp]:
  "gitlabServerAPIVersions (record_sent c req w) = gitlabServerAPIVersions w"
  by (simp add: record_sent_def)

lemma sent_logf [simp]: "sent (logf sev msg w) = sent w"
  by (simp add: logf_def)

lemma logged_record_sent [simp]: "logged (record_sent c req w) = logged w"
  by (simp add: record_sent_def)

lemma logged_logf [simp]: "logged (logf sev msg w) = logged w @ [(sev, msg)]"
  by (simp add: logf_def)

lemma tokenRequest_cache:
  "gitlabServerAPIVersions (snd (snd (tokenRequest env scm w))) = gitlabServerAPIVersions w"
  by (simp add: tokenRequest_def Let_def split: sum.split)

lemma tokenOfResponse_cache:
  "gitlabServerAPIVersions (snd (tokenOfResponse env resp w)) = gitlabServerAPIVersions w"
  by (simp add: tokenOfResponse_def split: sum.split)

lemma getOauthToken_cache:
  "gitlabServerAPIVersions (snd (snd (getOauthToken env scm w))) = gitlabServerAPIVersions w"
  using tokenRequest_cache [of env scm w]
  by (simp add: getOauthToken_def split_beta Let_def tokenOfResponse_cache split: sum.split)

lemma ensureToken_cache:
  "gitlabServerAPIVersions (snd (snd (ensureToken env scm w))) = gitlabServerAPIVersions w"
  using getOauthToken_cache [of env scm w]
  by (simp add: ensureToken_def split_beta split: sum.split)

lemma versionOfResponse_cache:
  "gitlabServerAPIVersions (snd (versionOfResponse env resp w)) = gitlabServerAPIVersions w"
  by (simp add: versionOfResponse_def split: sum.split)

lemma detectAPIVersion_cache:
  "gitlabServerAPIVersions (snd (snd (detectAPIVersion env scm w))) = gitlabServerAPIVersions w"
  using ensureToken_cache [of env scm w]
  by (simp add: detectAPIVersion_def split_beta Let_def versionOfResponse_cache split: sum.split)

lemma tokenRequest_Method:
  "tokenRequest env scm w = (Inr req, scm1, w1) \<Longrightarrow> Method req = ''POST''"
  by (auto simp add: tokenRequest_def http_NewRequest_def Header_Set_def Let_def
      split: sum.splits option.splits if_splits)

lemma versionRequest_Method:
  "versionRequest env scm = Inr req \<Longrightarrow> Method req = ''GET''"
  by (auto simp add: versionRequest_def http_NewRequest_def Header_Set_def
      split: sum.splits option.splits if_splits)

text \<open>
  Go divides integers towards zero; a status code is in the class 2xx exactly when
  \<^verbatim>\<open>resp.StatusCode/100 == 2\<close>.
\<close>

lemma sdiv_100_eq_2: "((k::int) sdiv 100 = 2) = (200 \<le> k \<and> k < 300)"
  by (auto simp: signed_divide_int_def sgn_if)

subsection \<open>The stubs, evaluated\<close>

lemma stub_tokenRequest:
  "\<exists>req w1. tokenRequest (stub_env net) cfg_password init_world
              = (Inr req, cfg_password\<lparr>Server := gitLabServer\<rparr>, w1)"
  by (simp add: tokenRequest_def stub_env_def stub_Marshal_def cfg_password_def
      http_NewRequest_def Let_def)

lemma stub_versionRequest: "\<exists>req. versionRequest (stub_env net) scm = Inr req"
  by (simp add: versionRequest_def stub_env_def http_NewRequest_def)

lemma stub_ensureToken_private:
  "ensureToken env cfg_private_token w = (Inr (), cfg_private_token, w)"
  by (simp add: ensureToken_def cfg_private_token_def)

subsection \<open>Credentials\<close>

text \<open>
  C6. When the username or the password of a configuration is empty, and so when token,
  username and password are all empty, \<open>getOauthToken\<close> fails with the error
  "GitHub username or password is missing", and it returns the configuration and the
  state of the process as they were: no request has been issued.
\<close>

theorem getOauthToken_missing_credentials:
  assumes "Username scm = '''' \<or> Password scm = ''''"
  shows "getOauthToken env scm w
           = (Inl (Errorf ''GitHub username or password is missing''), scm, w)"
  using assms by (auto simp add: getOauthToken_def)

theorem getOauthToken_missing_credentials_witness:
  "getOauthToken (stub_env (stub_net (Inl (LibError ''unused'')) (Inl (LibError ''unused''))))
       cfg_empty init_world
     = (Inl (Errorf ''GitHub username or password is missing''), cfg_empty, init_world)
   \<and> Token cfg_empty = '''' \<and> Username cfg_empty = '''' \<and> Password cfg_empty = ''''"
  using getOauthToken_missing_credentials
          [of cfg_empty
              "stub_env (stub_net (Inl (LibError ''unused'')) (Inl (LibError ''unused'')))"
              init_world]
  by (simp add: cfg_empty_def)

text \<open>
  C5. Once the request of the token exchange has been built and the token endpoint has
  answered it: a status in 200..299 with a body that decodes as an OAuth token gives the
  access token of that object; any other status gives an error whose text carries the
  body as it was received; a status in 200..299 with a body that does not decode gives
  the decoder's error; and a body that cannot be read gives the reader's error.
\<close>

theorem getOauthToken_response:
  assumes "Username scm \<noteq> ''''" and "Password scm \<noteq> ''''"
    and "tokenRequest env scm w = (Inr req, scm1, w1)"
    and "client_Do env DefaultClient req = Inr resp"
  shows "(Body resp = Inr body \<and> 200 \<le> StatusCode resp \<and> StatusCode resp < 300
            \<and> unmarshal_Token env body = Inr token
          \<longrightarrow> fst (getOauthToken env scm w) = Inr (AccessToken token))
       \<and> (Body resp = Inr body \<and> \<not> (200 \<le> StatusCode resp \<and> StatusCode resp < 300)
          \<longrightarrow> fst (getOauthToken env scm w)
                = Inl (Errorf (''Fail to request for token as '' @ body)))
       \<and> (Body resp = Inr body \<and> 200 \<le> StatusCode resp \<and> StatusCode resp < 300
            \<and> unmarshal_Token env body = Inl err
          \<longrightarrow> fst (getOauthToken env scm w) = Inl err)
       \<and> (Body resp = Inl err \<longrightarrow> fst (getOauthToken env scm w) = Inl err)"
  using assms
  by (simp add: getOauthToken_def tokenOfResponse_def Let_def sdiv_100_eq_2)

theorem getOauthToken_response_witness:
  \<open>fst (getOauthToken
          (stub_env (stub_net (Inr \<lparr>StatusCode = 200, Body = Inr ''{"access_token":"T"}''\<rparr>)
                              (Inl (LibError ''unused''))))
          cfg_password init_world) = Inr ''T''
   \<and> fst (getOauthToken
          (stub_env (stub_net (Inr \<lparr>StatusCode = 401, Body = Inr ''{"error":"invalid_grant"}''\<rparr>)
                              (Inl (LibError ''unused''))))
          cfg_password init_world)
       = Inl (Errorf ''Fail to request for token as {"error":"invalid_grant"}'')
   \<and> fst (getOauthToken
          (stub_env (stub_net (Inr \<lparr>StatusCode = 201, Body = Inr ''<html>''\<rparr>)
                              (Inl (LibError ''unused''))))
          cfg_password init_world) = Inl (LibError ''invalid character'')\<close>
proof -
  have creds: "Username cfg_password \<noteq> ''''" "Password cfg_password \<noteq> ''''"
    by (simp_all add: cfg_password_def)
  have run: "\<exists>req scm1 w1.
      tokenRequest (stub_env (stub_net (Inr resp) other)) cfg_password init_world
        = (Inr req, scm1, w1)
      \<and> client_Do (stub_env (stub_net (Inr resp) other)) DefaultClient req = Inr resp"
    for resp other
  proof -
    obtain req w1 where
      t: "tokenRequest (stub_env (stub_net (Inr resp) other)) cfg_password init_world
            = (Inr req, cfg_password\<lparr>Server := gitLabServer\<rparr>, w1)"
      using stub_tokenRequest by blast
    then have "Method req = ''POST''"
      by (rule tokenRequest_Method)
    then have "client_Do (stub_env (stub_net (Inr resp) other)) DefaultClient req = Inr resp"
      by (simp add: stub_env_def stub_net_def)
    with t show ?thesis by blast
  qed
  have a: \<open>fst (getOauthToken
          (stub_env (stub_net (Inr \<lparr>StatusCode = 200, Body = Inr ''{"access_token":"T"}''\<rparr>)
                              (Inl (LibError ''unused''))))
          cfg_password init_world) = Inr ''T''\<close>
  proof -
    from run obtain req scm1 w1 where
      \<open>tokenRequest (stub_env (stub_net (Inr \<lparr>StatusCode = 200, Body = Inr ''{"access_token":"T"}''\<rparr>)
                              (Inl (LibError ''unused'')))) cfg_password init_world
        = (Inr req, scm1, w1)\<close>
      \<open>client_Do (stub_env (stub_net (Inr \<lparr>StatusCode = 200, Body = Inr ''{"access_token":"T"}''\<rparr>)
                              (Inl (LibError ''unused'')))) DefaultClient req
        = Inr \<lparr>StatusCode = 200, Body = Inr ''{"access_token":"T"}''\<rparr>\<close>
      by blast
    from getOauthToken_response [OF creds this,
        of \<open>''{"access_token":"T"}''\<close>
           "\<lparr>AccessToken = ''T'', TokenType = '''', RefreshToken = ''''\<rparr>"]
    show ?thesis
      by (simp add: stub_env_def stub_unmarshal_Token_def)
  qed
  have b: \<open>fst (getOauthToken
          (stub_env (stub_net (Inr \<lparr>StatusCode = 401, Body = Inr ''{"error":"invalid_grant"}''\<rparr>)
                              (Inl (LibError ''unused''))))
          cfg_password init_world)
       = Inl (Errorf ''Fail to request for token as {"error":"invalid_grant"}'')\<close>
  proof -
    from run obtain req scm1 w1 where
      \<open>tokenRequest (stub_env (stub_net (Inr \<lparr>StatusCode = 401, Body = Inr ''{"error":"invalid_grant"}''\<rparr>)
                              (Inl (LibError ''unused'')))) cfg_password init_world
        = (Inr req, scm1, w1)\<close>
      \<open>client_Do (stub_env (stub_net (Inr \<lparr>StatusCode = 401, Body = Inr ''{"error":"invalid_grant"}''\<rparr>)
                              (Inl (LibError ''unused'')))) DefaultClient req
        = Inr \<lparr>StatusCode = 401, Body = Inr ''{"error":"invalid_grant"}''\<rparr>\<close>
      by blast
    from getOauthToken_response [OF creds this, of \<open>''{"error":"invalid_grant"}''\<close>]
    show ?thesis
      by simp
  qed
  have c: \<open>fst (getOauthToken
          (stub_env (stub_net (Inr \<lparr>StatusCode = 201, Body = Inr ''<html>''\<rparr>)
                              (Inl (LibError ''unused''))))
          cfg_password init_world) = Inl (LibError ''invalid character'')\<close>
  proof -
    from run obtain req scm1 w1 where
      \<open>tokenRequest (stub_env (stub_net (Inr \<lparr>StatusCode = 201, Body = Inr ''<html>''\<rparr>)
                              (Inl (LibError ''unused'')))) cfg_password init_world
        = (Inr req, scm1, w1)\<close>
      \<open>client_Do (stub_env (stub_net (Inr \<lparr>StatusCode = 201, Body = Inr ''<html>''\<rparr>)
                              (Inl (LibError ''unused'')))) DefaultClient req
        = Inr \<lparr>StatusCode = 201, Body = Inr ''<html>''\<rparr>\<close>
      by blast
    from getOauthToken_response [OF creds this, of "''<html>''" _ "LibError ''invalid character''"]
    show ?thesis
      by (simp add: stub_env_def stub_unmarshal_Token_def)
  qed
  from a b c show ?thesis by blast
qed

subsection \<open>The probe\<close>

lemma show_int_500: "show_int 500 = ''500''"
  by code_simp

lemma stub_probe:
  "\<exists>req. versionRequest (probe_env answer) cfg_private_token = Inr req
         \<and> client_Do (probe_env answer) NoRedirectClient req = answer"
proof -
  obtain req where r: "versionRequest (probe_env answer) cfg_private_token = Inr req"
    using stub_versionRequest unfolding probe_env_def by blast
  then have "Method req = ''GET''"
    by (rule versionRequest_Method)
  then have "client_Do (probe_env answer) NoRedirectClient req = answer"
    by (simp add: probe_env_def stub_env_def stub_net_def)
  with r show ?thesis by blast
qed

text \<open>
  C1. Once \<open>detectAPIVersion\<close> has a token and has built the request of the probe, the
  answer to that request decides: status 200 with a body that decodes as a version object
  gives v4; status 404 or 302 gives v3 and nothing in the log; any other status gives v3
  and one warning in the log; and a failure of the transport gives that error and no
  version, the version map being as it was.
\<close>

theorem detectAPIVersion_classification:
  assumes "ensureToken env scmCfg w = (Inr (), scm1, w1)"
    and "versionRequest env scm1 = Inr req"
  shows "(client_Do env NoRedirectClient req = Inr resp \<and> StatusCode resp = 200
            \<and> Body resp = Inr body \<and> unmarshal_versionResponse env body = Inr gv
          \<longrightarrow> fst (detectAPIVersion env scmCfg w) = Inr ''v4'')
       \<and> (client_Do env NoRedirectClient req = Inr resp
            \<and> (StatusCode resp = 404 \<or> StatusCode resp = 302)
          \<longrightarrow> fst (detectAPIVersion env scmCfg w) = Inr ''v3''
              \<and> logged (snd (snd (detectAPIVersion env scmCfg w))) = logged w1)
       \<and> (client_Do env NoRedirectClient req = Inr resp
            \<and> StatusCode resp \<noteq> 200 \<and> StatusCode resp \<noteq> 404 \<and> StatusCode resp \<noteq> 302
          \<longrightarrow> fst (detectAPIVersion env scmCfg w) = Inr ''v3''
              \<and> logged (snd (snd (detectAPIVersion env scmCfg w)))
                  = logged w1 @ [(WARNING, ''Status code of Gitlab API version request is ''
                                   @ show_int (StatusCode resp) @ '', use v3 in default'')])
       \<and> (client_Do env NoRedirectClient req = Inl err
          \<longrightarrow> fst (detectAPIVersion env scmCfg w) = Inl err
              \<and> gitlabServerAPIVersions (snd (snd (detectAPIVersion env scmCfg w)))
                  = gitlabServerAPIVersions w)"
  using assms ensureToken_cache [of env scmCfg w]
  by (simp add: detectAPIVersion_def versionOfResponse_def Let_def StatusOK_def
      StatusNotFound_def StatusFound_def v3APIVersion_def v4APIVersion_def)

theorem detectAPIVersion_classification_witness:
  \<open>fst (detectAPIVersion
          (probe_env (Inr \<lparr>StatusCode = 200, Body = Inr ''{"version":"11.0.1"}''\<rparr>))
          cfg_private_token init_world) = Inr ''v4''
   \<and> fst (detectAPIVersion (probe_env (Inr \<lparr>StatusCode = 404, Body = Inr ''''\<rparr>))
          cfg_private_token init_world) = Inr ''v3''
   \<and> fst (detectAPIVersion (probe_env (Inr \<lparr>StatusCode = 302, Body = Inr ''''\<rparr>))
          cfg_private_token init_world) = Inr ''v3''
   \<and> fst (detectAPIVersion (probe_env (Inr \<lparr>StatusCode = 500, Body = Inr ''''\<rparr>))
          cfg_private_token init_world) = Inr ''v3''
   \<and> logged (snd (snd (detectAPIVersion (probe_env (Inr \<lparr>StatusCode = 500, Body = Inr ''''\<rparr>))
          cfg_private_token init_world)))
       = [(WARNING, ''Status code of Gitlab API version request is 500, use v3 in default'')]
   \<and> fst (detectAPIVersion (probe_env (Inl (LibError ''connection refused'')))
          cfg_private_token init_world) = Inl (LibError ''connection refused'')\<close>
proof -
  have inst: "\<exists>req. versionRequest (probe_env answer) cfg_private_token = Inr req
      \<and> client_Do (probe_env answer) NoRedirectClient req = answer
      \<and> ensureToken (probe_env answer) cfg_private_token init_world
          = (Inr (), cfg_private_token, init_world)" for answer
    using stub_probe [of answer] stub_ensureToken_private by blast
  have a: \<open>fst (detectAPIVersion
          (probe_env (Inr \<lparr>StatusCode = 200, Body = Inr ''{"version":"11.0.1"}''\<rparr>))
          cfg_private_token init_world) = Inr ''v4''\<close>
  proof -
    from inst obtain req where
      \<open>ensureToken (probe_env (Inr \<lparr>StatusCode = 200, Body = Inr ''{"version":"11.0.1"}''\<rparr>))
         cfg_private_token init_world = (Inr (), cfg_private_token, init_world)\<close>
      \<open>versionRequest (probe_env (Inr \<lparr>StatusCode = 200, Body = Inr ''{"version":"11.0.1"}''\<rparr>))
         cfg_private_token = Inr req\<close>
      and d: \<open>client_Do (probe_env (Inr \<lparr>StatusCode = 200, Body = Inr ''{"version":"11.0.1"}''\<rparr>))
         NoRedirectClient req = Inr \<lparr>StatusCode = 200, Body = Inr ''{"version":"11.0.1"}''\<rparr>\<close>
      by blast
    from detectAPIVersion_classification [OF this(1,2),
        of \<open>\<lparr>StatusCode = 200, Body = Inr ''{"version":"11.0.1"}''\<rparr>\<close>
           \<open>''{"version":"11.0.1"}''\<close> "\<lparr>Version = ''11.0.1'', Reversion = ''''\<rparr>"] d
    show ?thesis
      by (simp add: probe_env_def stub_env_def stub_unmarshal_versionResponse_def)
  qed
  have b: "fst (detectAPIVersion (probe_env (Inr \<lparr>StatusCode = 404, Body = Inr ''''\<rparr>))
          cfg_private_token init_world) = Inr ''v3''"
  proof -
    from inst obtain req where
      "ensureToken (probe_env (Inr \<lparr>StatusCode = 404, Body = Inr ''''\<rparr>))
         cfg_private_token init_world = (Inr (), cfg_private_token, init_world)"
      "versionRequest (probe_env (Inr \<lparr>StatusCode = 404, Body = Inr ''''\<rparr>))
         cfg_private_token = Inr req"
      and d: "client_Do (probe_env (Inr \<lparr>StatusCode = 404, Body = Inr ''''\<rparr>))
         NoRedirectClient req = Inr \<lparr>StatusCode = 404, Body = Inr ''''\<rparr>"
      by blast
    from detectAPIVersion_classification [OF this(1,2),
        of "\<lparr>StatusCode = 404, Body = Inr ''''\<rparr>"] d
    show ?thesis by simp
  qed
  have c: "fst (detectAPIVersion (probe_env (Inr \<lparr>StatusCode = 302, Body = Inr ''''\<rparr>))
          cfg_private_token init_world) = Inr ''v3''"
  proof -
    from inst obtain req where
      "ensureToken (probe_env (Inr \<lparr>StatusCode = 302, Body = Inr ''''\<rparr>))
         cfg_private_token init_world = (Inr (), cfg_private_token, init_world)"
      "versionRequest (probe_env (Inr \<lparr>StatusCode = 302, Body = Inr ''''\<rparr>))
         cfg_private_token = Inr req"
      and d: "client_Do (probe_env (Inr \<lparr>StatusCode = 302, Body = Inr ''''\<rparr>))
         NoRedirectClient req = Inr \<lparr>StatusCode = 302, Body = Inr ''''\<rparr>"
      by blast
    from detectAPIVersion_classification [OF this(1,2),
        of "\<lparr>StatusCode = 302, Body = Inr ''''\<rparr>"] d
    show ?thesis by simp
  qed
  have d: "fst (detectAPIVersion (probe_env (Inr \<lparr>StatusCode = 500, Body = Inr ''''\<rparr>))
          cfg_private_token init_world) = Inr ''v3''
     \<and> logged (snd (snd (detectAPIVersion (probe_env (Inr \<lparr>StatusCode = 500, Body = Inr ''''\<rparr>))
          cfg_private_token init_world)))
       = [(WARNING, ''Status code of Gitlab API version request is 500, use v3 in default'')]"
  proof -
    from inst obtain req where
      "ensureToken (probe_env (Inr \<lparr>StatusCode = 500, Body = Inr ''''\<rparr>))
         cfg_private_token init_world = (Inr (), cfg_private_token, init_world)"
      "versionRequest (probe_env (Inr \<lparr>StatusCode = 500, Body = Inr ''''\<rparr>))
         cfg_private_token = Inr req"
      and d: "client_Do (probe_env (Inr \<lparr>StatusCode = 500, Body = Inr ''''\<rparr>))
         NoRedirectClient req = Inr \<lparr>StatusCode = 500, Body = Inr ''''\<rparr>"
      by blast
    from detectAPIVersion_classification [OF this(1,2),
        of "\<lparr>StatusCode = 500, Body = Inr ''''\<rparr>"] d
    show ?thesis by (simp add: show_int_500 init_world_def)
  qed
  have e: "fst (detectAPIVersion (probe_env (Inl (LibError ''connection refused'')))
          cfg_private_token init_world) = Inl (LibError ''connection refused'')"
  proof -
    from inst obtain req where
      "ensureToken (probe_env (Inl (LibError ''connection refused'')))
         cfg_private_token init_world = (Inr (), cfg_private_token, init_world)"
      "versionRequest (probe_env (Inl (LibError ''connection refused'')))
         cfg_private_token = Inr req"
      and d: "client_Do (probe_env (Inl (LibError ''connection refused'')))
         NoRedirectClient req = Inl (LibError ''connection refused'')"
      by blast
    from detectAPIVersion_classification [OF this(1,2),
        of _ _ _ "LibError ''connection refused''"] d
    show ?thesis by simp
  qed
  from a b c d e show ?thesis by blast
qed

subsection \<open>The version map\<close>

lemma newGitlabV3Client_frame:
  "gitlabServerAPIVersions (snd (newGitlabV3Client env server username token w))
     = gitlabServerAPIVersions w
   \<and> sent (snd (newGitlabV3Client env server username token w)) = sent w"
  by (simp add: newGitlabV3Client_def Let_def split: option.split)

lemma newGitlabV4Client_frame:
  "gitlabServerAPIVersions (snd (newGitlabV4Client env server username token w))
     = gitlabServerAPIVersions w
   \<and> sent (snd (newGitlabV4Client env server username token w)) = sent w"
  by (simp add: newGitlabV4Client_def Let_def split: option.split)

lemma NewGitlab_frame:
  "gitlabServerAPIVersions (snd (snd (NewGitlab env scmCfg w)))
     = gitlabServerAPIVersions (snd (snd (getAPIVersion env scmCfg w)))
   \<and> sent (snd (snd (NewGitlab env scmCfg w))) = sent (snd (snd (getAPIVersion env scmCfg w)))"
  by (simp add: NewGitlab_def split_beta Let_def newGitlabV3Client_frame
      newGitlabV4Client_frame split: sum.split)

lemma cache_init_world: "gitlabServerAPIVersions init_world = Map.empty"
  by (simp add: init_world_def)

lemma stub_getAPIVersion_miss:
  "getAPIVersion (probe_env (Inr \<lparr>StatusCode = 404, Body = Inr ''''\<rparr>))
       cfg_private_token init_world
     = (Inr ''v3'', cfg_private_token,
        snd (snd (detectAPIVersion (probe_env (Inr \<lparr>StatusCode = 404, Body = Inr ''''\<rparr>))
                    cfg_private_token init_world))
          \<lparr>gitlabServerAPIVersions := [''https://gitlab.example.com'' \<mapsto> ''v3'']\<rparr>)"
proof -
  obtain req where
    r: "versionRequest (probe_env (Inr \<lparr>StatusCode = 404, Body = Inr ''''\<rparr>))
          cfg_private_token = Inr req"
    and d: "client_Do (probe_env (Inr \<lparr>StatusCode = 404, Body = Inr ''''\<rparr>))
          NoRedirectClient req = Inr \<lparr>StatusCode = 404, Body = Inr ''''\<rparr>"
    using stub_probe by blast
  have det: "detectAPIVersion (probe_env (Inr \<lparr>StatusCode = 404, Body = Inr ''''\<rparr>))
          cfg_private_token init_world
        = (Inr ''v3'', cfg_private_token, record_sent NoRedirectClient req init_world)"
    using r d
    by (simp add: detectAPIVersion_def stub_ensureToken_private versionOfResponse_def
        StatusOK_def StatusNotFound_def v3APIVersion_def Let_def)
  have key: "ParseServerURL (probe_env (Inr \<lparr>StatusCode = 404, Body = Inr ''''\<rparr>))
               (Server cfg_private_token) = ''https://gitlab.example.com''"
    by (simp add: probe_env_def stub_env_def cfg_private_token_def)
  show ?thesis
    by (simp add: getAPIVersion_def key det cache_init_world)
qed

text \<open>
  C2. When the identity of the server is in the version map, \<open>getAPIVersion\<close> returns the
  recorded version and changes nothing at all, so no request is issued, and \<open>NewGitlab\<close>
  after it issues none either and leaves the map as it was. When the identity is not in
  the map and the probe succeeds, the version it found is returned and recorded under
  that identity. When the identity is not in the map and the probe fails, with a failure
  of the transport among the failures, the error is returned and the map stays as it was.
\<close>

theorem getAPIVersion_cache:
  "(gitlabServerAPIVersions w (ParseServerURL env (Server scmCfg)) = Some v
      \<longrightarrow> getAPIVersion env scmCfg w = (Inr v, scmCfg, w)
          \<and> sent (snd (snd (NewGitlab env scmCfg w))) = sent w
          \<and> gitlabServerAPIVersions (snd (snd (NewGitlab env scmCfg w)))
              = gitlabServerAPIVersions w)
   \<and> (gitlabServerAPIVersions w (ParseServerURL env (Server scmCfg)) = None
        \<and> fst (detectAPIVersion env scmCfg w) = Inr version
      \<longrightarrow> fst (getAPIVersion env scmCfg w) = Inr version
          \<and> gitlabServerAPIVersions (snd (snd (getAPIVersion env scmCfg w)))
              = (gitlabServerAPIVersions w)(ParseServerURL env (Server scmCfg) \<mapsto> version))
   \<and> (gitlabServerAPIVersions w (ParseServerURL env (Server scmCfg)) = None
        \<and> fst (detectAPIVersion env scmCfg w) = Inl err
      \<longrightarrow> fst (getAPIVersion env scmCfg w) = Inl err
          \<and> gitlabServerAPIVersions (snd (snd (getAPIVersion env scmCfg w)))
              = gitlabServerAPIVersions w)
   \<and> (gitlabServerAPIVersions w (ParseServerURL env (Server scmCfg)) = None
        \<and> ensureToken env scmCfg w = (Inr (), scm1, w1)
        \<and> versionRequest env scm1 = Inr req
        \<and> client_Do env NoRedirectClient req = Inl err
      \<longrightarrow> fst (getAPIVersion env scmCfg w) = Inl err
          \<and> gitlabServerAPIVersions (snd (snd (getAPIVersion env scmCfg w)))
              = gitlabServerAPIVersions w)"
proof -
  have hit: "getAPIVersion env scmCfg w = (Inr v, scmCfg, w)"
    if "gitlabServerAPIVersions w (ParseServerURL env (Server scmCfg)) = Some v"
    using that by (simp add: getAPIVersion_def)
  have miss_ok: "fst (getAPIVersion env scmCfg w) = Inr version
      \<and> gitlabServerAPIVersions (snd (snd (getAPIVersion env scmCfg w)))
          = (gitlabServerAPIVersions w)(ParseServerURL env (Server scmCfg) \<mapsto> version)"
    if "gitlabServerAPIVersions w (ParseServerURL env (Server scmCfg)) = None"
      and "fst (detectAPIVersion env scmCfg w) = Inr version"
    using that detectAPIVersion_cache [of env scmCfg w]
    by (simp add: getAPIVersion_def split_beta)
  have miss_err: "fst (getAPIVersion env scmCfg w) = Inl e
      \<and> gitlabServerAPIVersions (snd (snd (getAPIVersion env scmCfg w)))
          = gitlabServerAPIVersions w"
    if "gitlabServerAPIVersions w (ParseServerURL env (Server scmCfg)) = None"
      and "fst (detectAPIVersion env scmCfg w) = Inl e" for e
    using that detectAPIVersion_cache [of env scmCfg w]
    by (simp add: getAPIVersion_def split_beta)
  have transport: "fst (detectAPIVersion env scmCfg w) = Inl err"
    if "ensureToken env scmCfg w = (Inr (), scm1, w1)"
      and "versionRequest env scm1 = Inr req"
      and "client_Do env NoRedirectClient req = Inl err"
    using that by (simp add: detectAPIVersion_def Let_def)
  from hit miss_ok miss_err transport NewGitlab_frame [of env scmCfg w]
  show ?thesis
    by (metis snd_conv)
qed

theorem getAPIVersion_cache_witness:
  "getAPIVersion (probe_env (Inl (LibError ''connection refused''))) cfg_private_token
       (init_world\<lparr>gitlabServerAPIVersions := [''https://gitlab.example.com'' \<mapsto> ''v4'']\<rparr>)
     = (Inr ''v4'', cfg_private_token,
        init_world\<lparr>gitlabServerAPIVersions := [''https://gitlab.example.com'' \<mapsto> ''v4'']\<rparr>)
   \<and> sent (snd (snd (NewGitlab (probe_env (Inl (LibError ''connection refused'')))
         cfg_private_token
         (init_world\<lparr>gitlabServerAPIVersions := [''https://gitlab.example.com'' \<mapsto> ''v4'']\<rparr>))))
       = []
   \<and> fst (getAPIVersion (probe_env (Inr \<lparr>StatusCode = 404, Body = Inr ''''\<rparr>))
            cfg_private_token init_world) = Inr ''v3''
   \<and> gitlabServerAPIVersions
        (snd (snd (getAPIVersion (probe_env (Inr \<lparr>StatusCode = 404, Body = Inr ''''\<rparr>))
                     cfg_private_token init_world)))
       = [''https://gitlab.example.com'' \<mapsto> ''v3'']
   \<and> fst (getAPIVersion (probe_env (Inl (LibError ''connection refused'')))
            cfg_private_token init_world) = Inl (LibError ''connection refused'')
   \<and> gitlabServerAPIVersions
        (snd (snd (getAPIVersion (probe_env (Inl (LibError ''connection refused'')))
                     cfg_private_token init_world)))
       = Map.empty"
proof -
  have key: "ParseServerURL (probe_env answer) (Server cfg_private_token)
               = ''https://gitlab.example.com''" for answer
    by (simp add: probe_env_def stub_env_def cfg_private_token_def)
  have hit: "getAPIVersion (probe_env (Inl (LibError ''connection refused''))) cfg_private_token
       (init_world\<lparr>gitlabServerAPIVersions := [''https://gitlab.example.com'' \<mapsto> ''v4'']\<rparr>)
     = (Inr ''v4'', cfg_private_token,
        init_world\<lparr>gitlabServerAPIVersions := [''https://gitlab.example.com'' \<mapsto> ''v4'']\<rparr>)
   \<and> sent (snd (snd (NewGitlab (probe_env (Inl (LibError ''connection refused'')))
         cfg_private_token
         (init_world\<lparr>gitlabServerAPIVersions := [''https://gitlab.example.com'' \<mapsto> ''v4'']\<rparr>))))
       = []"
    using getAPIVersion_cache
      [of "init_world\<lparr>gitlabServerAPIVersions := [''https://gitlab.example.com'' \<mapsto> ''v4'']\<rparr>"
          "probe_env (Inl (LibError ''connection refused''))" cfg_private_token "''v4''"]
    by (simp add: key init_world_def)
  obtain req where
    r: "versionRequest (probe_env (Inr \<lparr>StatusCode = 404, Body = Inr ''''\<rparr>))
          cfg_private_token = Inr req"
    and d: "client_Do (probe_env (Inr \<lparr>StatusCode = 404, Body = Inr ''''\<rparr>))
          NoRedirectClient req = Inr \<lparr>StatusCode = 404, Body = Inr ''''\<rparr>"
    using stub_probe by blast
  have det: "fst (detectAPIVersion (probe_env (Inr \<lparr>StatusCode = 404, Body = Inr ''''\<rparr>))
          cfg_private_token init_world) = Inr ''v3''"
    using r d
    by (simp add: detectAPIVersion_def stub_ensureToken_private versionOfResponse_def
        StatusOK_def StatusNotFound_def v3APIVersion_def Let_def)
  have miss: "fst (getAPIVersion (probe_env (Inr \<lparr>StatusCode = 404, Body = Inr ''''\<rparr>))
            cfg_private_token init_world) = Inr ''v3''
   \<and> gitlabServerAPIVersions
        (snd (snd (getAPIVersion (probe_env (Inr \<lparr>StatusCode = 404, Body = Inr ''''\<rparr>))
                     cfg_private_token init_world)))
       = [''https://gitlab.example.com'' \<mapsto> ''v3'']"
    using getAPIVersion_cache
      [of init_world "probe_env (Inr \<lparr>StatusCode = 404, Body = Inr ''''\<rparr>)"
          cfg_private_token _ "''v3''"] det
    by (simp add: key init_world_def)
  obtain req' where
    r': "versionRequest (probe_env (Inl (LibError ''connection refused'')))
          cfg_private_token = Inr req'"
    and d': "client_Do (probe_env (Inl (LibError ''connection refused'')))
          NoRedirectClient req' = Inl (LibError ''connection refused'')"
    using stub_probe by blast
  have fail: "fst (getAPIVersion (probe_env (Inl (LibError ''connection refused'')))
            cfg_private_token init_world) = Inl (LibError ''connection refused'')
   \<and> gitlabServerAPIVersions
        (snd (snd (getAPIVersion (probe_env (Inl (LibError ''connection refused'')))
                     cfg_private_token init_world)))
       = Map.empty"
    using getAPIVersion_cache
      [of init_world "probe_env (Inl (LibError ''connection refused''))"
          cfg_private_token _ _ "LibError ''connection refused''"
          cfg_private_token init_world req'] r' d'
    by (simp add: key init_world_def stub_ensureToken_private)
  from hit miss fail show ?thesis by blast
qed

subsection \<open>The versions that reach the switch of NewGitlab\<close>

lemma versionOfResponse_result:
  "fst (versionOfResponse env resp w) = Inr version \<Longrightarrow> version = ''v3'' \<or> version = ''v4''"
  by (auto simp add: versionOfResponse_def v3APIVersion_def v4APIVersion_def
      split: sum.splits if_splits)

lemma detectAPIVersion_result:
  "fst (detectAPIVersion env scm w) = Inr version \<Longrightarrow> version = ''v3'' \<or> version = ''v4''"
  by (auto simp add: detectAPIVersion_def Let_def split_beta split: sum.splits
      dest: versionOfResponse_result)

lemma versions_known_init: "versions_known init_world"
  by (simp add: versions_known_def init_world_def)

lemma getAPIVersion_versions_known:
  assumes "versions_known w"
  shows "versions_known (snd (snd (getAPIVersion env scmCfg w)))
       \<and> (fst (getAPIVersion env scmCfg w) = Inr version
            \<longrightarrow> version = ''v3'' \<or> version = ''v4'')"
proof (cases "gitlabServerAPIVersions w (ParseServerURL env (Server scmCfg))")
  case (Some v)
  with assms have "v = ''v3'' \<or> v = ''v4''"
    by (auto simp add: versions_known_def v3APIVersion_def v4APIVersion_def)
  with Some assms show ?thesis
    by (auto simp add: getAPIVersion_def)
next
  case None
  show ?thesis
  proof (cases "fst (detectAPIVersion env scmCfg w)")
    case (Inl err)
    with None assms detectAPIVersion_cache [of env scmCfg w] show ?thesis
      by (simp add: getAPIVersion_def split_beta versions_known_def)
  next
    case (Inr ver)
    then have "ver = ''v3'' \<or> ver = ''v4''"
      by (rule detectAPIVersion_result)
    with None Inr assms detectAPIVersion_cache [of env scmCfg w] show ?thesis
      by (auto simp add: getAPIVersion_def split_beta versions_known_def
          v3APIVersion_def v4APIVersion_def)
  qed
qed

lemma NewGitlab_versions_known:
  "versions_known w \<Longrightarrow> versions_known (snd (snd (NewGitlab env scmCfg w)))"
  using getAPIVersion_versions_known [of w env scmCfg] NewGitlab_frame [of env scmCfg w]
  by (simp add: versions_known_def)

lemma after_calls_versions_known:
  "versions_known w \<Longrightarrow> versions_known (after_calls calls w)"
proof (induction calls arbitrary: w)
  case Nil
  then show ?case by simp
next
  case (Cons c calls)
  obtain env scmCfg where c: "c = (env, scmCfg)" by (cases c)
  from Cons.prems have "versions_known (snd (snd (NewGitlab env scmCfg w)))"
    by (rule NewGitlab_versions_known)
  then have "versions_known (after_calls calls (snd (snd (NewGitlab env scmCfg w))))"
    by (rule Cons.IH)
  with c show ?case by simp
qed

lemma newGitlabV3Client_result:
  "fst (newGitlabV3Client env server username token w)
     = fst (newGitlabV3Client env server username token w')"
  by (simp add: newGitlabV3Client_def Let_def split: option.split)

lemma newGitlabV4Client_result:
  "fst (newGitlabV4Client env server username token w)
     = fst (newGitlabV4Client env server username token w')"
  by (simp add: newGitlabV4Client_def Let_def split: option.split)

text \<open>
  C9. In a process that starts with the empty version map and has made any sequence of
  calls of \<open>NewGitlab\<close>, a version resolution that succeeds returns exactly the string
  v3 or the string v4, and \<open>NewGitlab\<close> then returns what the construction of the v3
  client gives, wrapped as the v3 adapter, or what the construction of the v4 client
  gives, wrapped as the v4 adapter: the default branch of its switch is never taken.
\<close>

theorem NewGitlab_version_supported:
  assumes "getAPIVersion env scmCfg (after_calls calls init_world) = (Inr version, scm1, w1)"
  shows "(version = ''v3''
          \<and> fst (NewGitlab env scmCfg (after_calls calls init_world))
              = map_sum id (GitlabV3 scm1)
                  (fst (newGitlabV3Client env (Server scm1) (Username scm1) (Token scm1) w1)))
       \<or> (version = ''v4''
          \<and> fst (NewGitlab env scmCfg (after_calls calls init_world))
              = map_sum id (GitlabV4 scm1)
                  (fst (newGitlabV4Client env (Server scm1) (Username scm1) (Token scm1) w1)))"
proof -
  have "versions_known (after_calls calls init_world)"
    by (rule after_calls_versions_known) (rule versions_known_init)
  from getAPIVersion_versions_known [OF this, of env scmCfg version] assms
  have v: "version = ''v3'' \<or> version = ''v4''"
    by simp
  have v3: "fst (NewGitlab env scmCfg (after_calls calls init_world))
              = map_sum id (GitlabV3 scm1)
                  (fst (newGitlabV3Client env (Server scm1) (Username scm1) (Token scm1) w1))"
    if "version = ''v3''"
    using that assms
      newGitlabV3Client_result [of env "Server scm1" "Username scm1" "Token scm1"
        "logf INFO (''New Gitlab '' @ version @ '' client'') w1" w1]
    by (simp add: NewGitlab_def Let_def split_beta v3APIVersion_def split: sum.split)
  have v4: "fst (NewGitlab env scmCfg (after_calls calls init_world))
              = map_sum id (GitlabV4 scm1)
                  (fst (newGitlabV4Client env (Server scm1) (Username scm1) (Token scm1) w1))"
    if "version = ''v4''"
    using that assms
      newGitlabV4Client_result [of env "Server scm1" "Username scm1" "Token scm1"
        "logf INFO (''New Gitlab '' @ version @ '' client'') w1" w1]
    by (simp add: NewGitlab_def Let_def split_beta v3APIVersion_def v4APIVersion_def
        split: sum.split)
  from v v3 v4 show ?thesis by blast
qed

theorem NewGitlab_version_supported_witness:
  "fst (NewGitlab (probe_env (Inl (LibError ''connection refused''))) cfg_private_token
         (after_calls [(probe_env (Inr \<lparr>StatusCode = 404, Body = Inr ''''\<rparr>), cfg_private_token)]
            init_world))
     = Inr (GitlabV3 cfg_private_token
              \<lparr>clientKind = PrivateTokenClient, clientToken = ''glpat-1'',
               baseURL = ''https://gitlab.example.com/api/v3''\<rparr>)"
proof -
  let ?first = "probe_env (Inr \<lparr>StatusCode = 404, Body = Inr ''''\<rparr>)"
  let ?second = "probe_env (Inl (LibError ''connection refused''))"
  let ?w = "after_calls [(?first, cfg_private_token)] init_world"
  have key: "ParseServerURL ?second (Server cfg_private_token) = ''https://gitlab.example.com''"
    by (simp add: probe_env_def stub_env_def cfg_private_token_def)
  have "gitlabServerAPIVersions ?w = [''https://gitlab.example.com'' \<mapsto> ''v3'']"
    using NewGitlab_frame [of ?first cfg_private_token init_world]
    by (simp add: stub_getAPIVersion_miss)
  then have "getAPIVersion ?second cfg_private_token ?w = (Inr ''v3'', cfg_private_token, ?w)"
    by (simp only: getAPIVersion_def key Let_def) simp
  from NewGitlab_version_supported [OF this]
  show ?thesis
    by (simp add: newGitlabV3Client_def Let_def v3APIVersion_def probe_env_def stub_env_def
        cfg_private_token_def)
qed

subsection \<open>The rewrite of the server\<close>

lemma CanonicalMIMEHeaderKey_used:
  "CanonicalMIMEHeaderKey ''PRIVATE-TOKEN'' = ''Private-Token''
   \<and> CanonicalMIMEHeaderKey ''Content-Type'' = ''Content-Type''
   \<and> CanonicalMIMEHeaderKey ''Authorization'' = ''Authorization''"
  by code_simp

lemma tokenRequest_config:
  "fst (snd (tokenRequest env scm w)) =
     (if (\<exists>bodyBytes. json_Marshal env (''password'', Username scm, Password scm) = Inr bodyBytes)
          \<and> strings_Contains (Server scm) ''gitlab.com''
          \<and> strings_HasPrefix (Server scm) ''http://''
      then scm\<lparr>Server := gitLabServer\<rparr> else scm)"
  by (auto simp add: tokenRequest_def Let_def split: sum.split)

lemma getOauthToken_config:
  "fst (snd (getOauthToken env scm w)) =
     (if Username scm \<noteq> '''' \<and> Password scm \<noteq> ''''
      then fst (snd (tokenRequest env scm w)) else scm)"
  by (simp add: getOauthToken_def split_beta Let_def split: sum.split)

lemma spec_hosts:
  "\<not> spec_insecure_public_host ''http://gitlab.company.com''
   \<and> spec_insecure_public_host ''http://gitlab.com''
   \<and> spec_insecure_public_host ''HTTP://gitlab.com''
   \<and> spec_insecure_public_host ''http://alice@GitLab.com:80/group''
   \<and> \<not> spec_insecure_public_host ''http://gitlab.com:pw@evil.example.org/''
   \<and> \<not> spec_insecure_public_host ''https://gitlab.com''"
  by code_simp

lemma stub_other_host_sent:
  "sent (snd (snd (getOauthToken (probe_env (Inl (LibError ''connection refused'')))
                     cfg_other_host init_world)))
     = [(DefaultClient,
         Header_Set ''Content-Type'' ''application/json''
           \<lparr>Method = ''POST'', URL = ''https://gitlab.com/oauth/token'', Header = [],
            ReqBody = projr (stub_Marshal (''password'', ''alice'', ''secret''))\<rparr>)]"
  by (simp add: getOauthToken_def tokenRequest_def cfg_other_host_def probe_env_def
      stub_env_def stub_Marshal_def stub_net_def http_NewRequest_def Header_Set_def
      record_sent_def logf_def init_world_def gitLabServer_def Let_def)

text \<open>
  C3. The claim does not hold of the code, and the code is at fault. The comment of line 348
  says that the rewrite is for the public Gitlab, and the claim says that it is made
  exactly when the host is the public host and the scheme is the insecure one. The test
  of line 349 looks for the letters gitlab.com anywhere in the address: the server
  http://gitlab.company.com, whose host is not the public host, is replaced by
  https://gitlab.com in the configuration, and the request of the token exchange, with
  the username and the password in its body, goes to https://gitlab.com/oauth/token.
\<close>

theorem getOauthToken_rewrites_other_host:
  "\<not> spec_insecure_public_host (Server cfg_other_host)
   \<and> Username cfg_other_host = ''alice'' \<and> Password cfg_other_host = ''secret''
   \<and> Server (fst (snd (getOauthToken (probe_env (Inl (LibError ''connection refused'')))
                         cfg_other_host init_world))) = ''https://gitlab.com''
   \<and> map (\<lambda>(c, req). URL req)
        (sent (snd (snd (getOauthToken (probe_env (Inl (LibError ''connection refused'')))
                           cfg_other_host init_world))))
       = [''https://gitlab.com/oauth/token'']"
proof -
  have host: "\<not> spec_insecure_public_host (Server cfg_other_host)"
    using spec_hosts by (simp add: cfg_other_host_def)
  have server: "Server (fst (snd (getOauthToken (probe_env (Inl (LibError ''connection refused'')))
                         cfg_other_host init_world))) = ''https://gitlab.com''"
    by (simp add: getOauthToken_config tokenRequest_config cfg_other_host_def probe_env_def
        stub_env_def stub_Marshal_def gitLabServer_def)
  have url: "map (\<lambda>(c, req). URL req)
        (sent (snd (snd (getOauthToken (probe_env (Inl (LibError ''connection refused'')))
                           cfg_other_host init_world))))
       = [''https://gitlab.com/oauth/token'']"
    by (simp add: stub_other_host_sent Header_Set_def)
  from host server url show ?thesis
    by (simp add: cfg_other_host_def)
qed

text \<open>
  The same test reads the scheme letter by letter: with username and password there, the
  server HTTP://gitlab.com, whose host is the public host and whose scheme is the insecure
  one, is left as it is.
\<close>

lemma getOauthToken_keeps_upper_case_scheme:
  "spec_insecure_public_host ''HTTP://gitlab.com''
   \<and> Server (fst (snd (getOauthToken (probe_env (Inl (LibError ''connection refused'')))
                         (cfg_other_host\<lparr>Server := ''HTTP://gitlab.com''\<rparr>) init_world)))
       = ''HTTP://gitlab.com''"
  using spec_hosts
  by (simp add: getOauthToken_config tokenRequest_config cfg_other_host_def)

end
